theory Spec2Isabelle
  imports Complex_Main "HOL-Library.Word"
begin

section \<open>Data model of Light.h\<close>

text \<open>
  The C++ \<open>float\<close> is modelled by \<open>real\<close>: the development is about the control
  flow and the data flow of the light code, not about rounding. \<open>sf::Uint8\<close> colour
  channels are \<open>8 word\<close>, so that \<open>++\<close> and \<open>--\<close> wrap as they do in C++.
\<close>

type_synonym Vector2f = "real \<times> real"

definition vadd :: "Vector2f \<Rightarrow> Vector2f \<Rightarrow> Vector2f" where
  "vadd p q = (fst p + fst q, snd p + snd q)"

definition vsub :: "Vector2f \<Rightarrow> Vector2f \<Rightarrow> Vector2f" where
  "vsub p q = (fst p - fst q, snd p - snd q)"

definition vmul :: "Vector2f \<Rightarrow> real \<Rightarrow> Vector2f" where
  "vmul p k = (fst p * k, snd p * k)"

record Color =
  col_r :: "8 word"
  col_g :: "8 word"
  col_b :: "8 word"
  col_a :: "8 word"

definition Black :: Color where
  "Black = \<lparr>col_r = 0, col_g = 0, col_b = 0, col_a = 255\<rparr>"

definition White :: Color where
  "White = \<lparr>col_r = 255, col_g = 255, col_b = 255, col_a = 255\<rparr>"

text \<open>
  \<open>sf::Sprite\<close> as far as the light code reads and writes it: position, scale and
  origin of the transformable, the size of the texture rectangle, and the tint. The
  sprite of a light is never rotated by this code.
\<close>

record Sprite =
  sprPosition :: Vector2f
  sprScale :: Vector2f
  sprOrigin :: Vector2f
  sprTextureSize :: Vector2f
  sprColor :: Color

record BaseLight =
  mActive :: bool

record PointLight = BaseLight +
  mSprite :: Sprite
  mSourcePoint :: Vector2f
  mRadius :: real
  mShadowOverExtendMultiplier :: real

definition getScale :: "PointLight \<Rightarrow> Vector2f" where
  "getScale l = sprScale (mSprite l)"

definition setScale :: "real \<Rightarrow> real \<Rightarrow> PointLight \<Rightarrow> PointLight" where
  "setScale sx sy l = l\<lparr>mSprite := (mSprite l)\<lparr>sprScale := (sx, sy)\<rparr>\<rparr>"


section \<open>Ambient colour interpolation\<close>

record LightSystem =
  mAmbientColor :: Color
  mColorShift :: "real \<times> real \<times> real"

text \<open>\<open>LightSystem::LightSystem()\<close>: white ambient light, no carry.\<close>

definition newLightSystem :: LightSystem where
  "newLightSystem = \<lparr>mAmbientColor = White, mColorShift = (0, 0, 0)\<rparr>"

definition setAmbientColor :: "Color \<Rightarrow> LightSystem \<Rightarrow> LightSystem" where
  "setAmbientColor c s = s\<lparr>mAmbientColor := c\<rparr>"

text \<open>
  One channel of \<open>interpolateAmbientLight\<close>. The difference of the two bytes is taken
  after integer promotion (\<open>uint\<close>), cast to float and divided by \<open>strength\<close>; the
  byte itself is stepped with \<open>++\<close> or \<open>--\<close>, which wrap.
\<close>

definition interpolateChannel :: "real \<Rightarrow> 8 word \<Rightarrow> real \<times> 8 word \<Rightarrow> real \<times> 8 word" where
  "interpolateChannel strength target sc =
     (let shift = fst sc + real_of_int (uint target - uint (snd sc)) / strength in
      if shift > 1 then (shift - 1, snd sc + 1)
      else if shift < - 1 then (shift + 1, snd sc - 1)
      else (shift, snd sc))"

definition interpolateAmbientLight :: "Color \<Rightarrow> real \<Rightarrow> LightSystem \<Rightarrow> LightSystem" where
  "interpolateAmbientLight color strength s =
     (let amb = mAmbientColor s;
          (sx, sy, sz) = mColorShift s;
          (sx', r') = interpolateChannel strength (col_r color) (sx, col_r amb);
          (sy', g') = interpolateChannel strength (col_g color) (sy, col_g amb);
          (sz', b') = interpolateChannel strength (col_b color) (sz, col_b amb)
      in s\<lparr>mAmbientColor := amb\<lparr>col_r := r', col_g := g', col_b := b'\<rparr>,
            mColorShift := (sx', sy', sz')\<rparr>)"


section \<open>Flicker affectors\<close>

text \<open>
  \<open>sf::Clock\<close> is an injected capability: a tick carries the clock reading \<open>now\<close> in
  microseconds, the affector stores the reading of its last restart, and
  \<open>getElapsedTime().asMilliseconds()\<close> is the truncated difference.
\<close>

definition elapsedMilliseconds :: "int \<Rightarrow> int \<Rightarrow> int" where
  "elapsedMilliseconds start now = (now - start) div 1000"

record LightFlickering =
  mDirection :: bool
  mPeriod :: real
  mStrength :: real
  mTimer :: int

text \<open>\<open>LightFlickering(period, strength)\<close>, constructed at clock reading \<open>now\<close>.\<close>

definition newLightFlickering :: "real \<Rightarrow> real \<Rightarrow> int \<Rightarrow> LightFlickering" where
  "newLightFlickering period strength now =
     \<lparr>mDirection = False, mPeriod = period, mStrength = strength, mTimer = now\<rparr>"

definition LightFlickering_call ::
  "real \<Rightarrow> int \<Rightarrow> LightFlickering \<times> PointLight \<Rightarrow> LightFlickering \<times> PointLight" where
  "LightFlickering_call delta now fl =
     (let f = fst fl; light = snd fl;
          scale = mStrength f * delta / mPeriod f;
          light' = (if mDirection f
                    then setScale (fst (getScale light) + scale) (snd (getScale light) + scale) light
                    else setScale (fst (getScale light) - scale) (snd (getScale light) - scale) light);
          f' = (if real_of_int (elapsedMilliseconds (mTimer f) now) > mPeriod f
                then f\<lparr>mTimer := now, mDirection := \<not> mDirection f\<rparr>
                else f)
      in (f', light'))"

record RandomizedFlickering =
  rfDirection :: bool
  rfPeriod :: real
  rfBasePeriod :: real
  rfStrength :: real
  rfTimer :: int
  rfSizeMemorizer :: real

text \<open>
  \<open>NumberGenerator::getFloatRandBetw(0.5f, 1.0f)\<close> is injected as well: \<open>rnd\<close> is
  the number the generator returns when the code asks for one.
\<close>

definition newRandomizedFlickering :: "real \<Rightarrow> real \<Rightarrow> real \<Rightarrow> int \<Rightarrow> RandomizedFlickering" where
  "newRandomizedFlickering basePeriod strength rnd now =
     \<lparr>rfDirection = False, rfPeriod = rnd * basePeriod, rfBasePeriod = basePeriod,
      rfStrength = strength, rfTimer = now, rfSizeMemorizer = 0\<rparr>"

definition RandomizedFlickering_call ::
  "real \<Rightarrow> int \<Rightarrow> real \<Rightarrow> RandomizedFlickering \<times> PointLight \<Rightarrow> RandomizedFlickering \<times> PointLight" where
  "RandomizedFlickering_call delta now rnd fl =
     (let f = fst fl; light = snd fl;
          scale = rfStrength f * delta / rfPeriod f
      in if rfDirection f
         then (let light' = setScale (fst (getScale light) + scale) (snd (getScale light) + scale) light;
                   mem = rfSizeMemorizer f + scale;
                   f1 = f\<lparr>rfSizeMemorizer := mem\<rparr>
               in if mem \<ge> 0 \<or> real_of_int (elapsedMilliseconds (rfTimer f) now) > rfPeriod f
                  then (f1\<lparr>rfTimer := now, rfDirection := False, rfPeriod := rnd * rfBasePeriod f\<rparr>, light')
                  else (f1, light'))
         else (let light' = setScale (fst (getScale light) - scale) (snd (getScale light) - scale) light;
                   mem = rfSizeMemorizer f - scale;
                   f1 = f\<lparr>rfSizeMemorizer := mem\<rparr>
               in if mem \<le> - rfStrength f * rfPeriod f \<or> real_of_int (elapsedMilliseconds (rfTimer f) now) > rfPeriod f
                  then (f1\<lparr>rfTimer := now, rfDirection := True, rfPeriod := rnd * rfBasePeriod f\<rparr>, light')
                  else (f1, light')))"

text \<open>A light of scale \<open>(1, 1)\<close> with the constructor's radius and multiplier.\<close>

definition unitLight :: PointLight where
  "unitLight = \<lparr>mActive = True,
     mSprite = \<lparr>sprPosition = (0, 0), sprScale = (1, 1), sprOrigin = (16, 16),
                sprTextureSize = (32, 32), sprColor = White\<rparr>,
     mSourcePoint = (0, 0), mRadius = 10, mShadowOverExtendMultiplier = 14 / 10\<rparr>"


section \<open>Vectors, transforms and rectangles\<close>

text \<open>
  Modelled from the spec: \<open>dotProduct\<close>, \<open>normalize\<close> and \<open>normalizeVector\<close> of
  \<open>ungod/physics/Physics.h\<close>, which is not among the sources. The spec gives the dot
  product and the normalisation, which leaves a vector of length zero as it is
  (\<open>normalize\<close> is the in-place form of \<open>normalizeVector\<close>).
\<close>

definition dotProduct :: "Vector2f \<Rightarrow> Vector2f \<Rightarrow> real" where
  "dotProduct p q = fst p * fst q + snd p * snd q"

definition magnitude :: "Vector2f \<Rightarrow> real" where
  "magnitude p = sqrt (fst p * fst p + snd p * snd p)"

definition normalizeVector :: "Vector2f \<Rightarrow> Vector2f" where
  "normalizeVector p = (if magnitude p = 0 then p else (fst p / magnitude p, snd p / magnitude p))"

text \<open>
  \<open>sf::Transform\<close>: the affine part of the matrix. \<open>combine a b\<close> is \<open>a *= b\<close>, which
  applies \<open>b\<close> first. \<open>ungod::Transform::getTransform()\<close> hands out such a matrix, so an
  \<open>ungod::Transform\<close> is modelled by the matrix it returns.
\<close>

record sfTransform =
  a00 :: real
  a01 :: real
  a02 :: real
  a10 :: real
  a11 :: real
  a12 :: real

definition Identity :: sfTransform where
  "Identity = \<lparr>a00 = 1, a01 = 0, a02 = 0, a10 = 0, a11 = 1, a12 = 0\<rparr>"

definition transformPoint :: "sfTransform \<Rightarrow> Vector2f \<Rightarrow> Vector2f" where
  "transformPoint t p = (a00 t * fst p + a01 t * snd p + a02 t,
                         a10 t * fst p + a11 t * snd p + a12 t)"

definition combine :: "sfTransform \<Rightarrow> sfTransform \<Rightarrow> sfTransform" where
  "combine a b =
     \<lparr>a00 = a00 a * a00 b + a01 a * a10 b,
      a01 = a00 a * a01 b + a01 a * a11 b,
      a02 = a00 a * a02 b + a01 a * a12 b + a02 a,
      a10 = a10 a * a00 b + a11 a * a10 b,
      a11 = a10 a * a01 b + a11 a * a11 b,
      a12 = a10 a * a02 b + a11 a * a12 b + a12 a\<rparr>"

definition translate :: "sfTransform \<Rightarrow> Vector2f \<Rightarrow> sfTransform" where
  "translate t v = combine t \<lparr>a00 = 1, a01 = 0, a02 = fst v, a10 = 0, a11 = 1, a12 = snd v\<rparr>"

record FloatRect =
  rect_left :: real
  rect_top :: real
  rect_width :: real
  rect_height :: real

definition transformRect :: "sfTransform \<Rightarrow> FloatRect \<Rightarrow> FloatRect" where
  "transformRect t rc =
     (let ps = [transformPoint t (rect_left rc, rect_top rc),
                transformPoint t (rect_left rc, rect_top rc + rect_height rc),
                transformPoint t (rect_left rc + rect_width rc, rect_top rc),
                transformPoint t (rect_left rc + rect_width rc, rect_top rc + rect_height rc)];
          l = Min (set (map fst ps)); r = Max (set (map fst ps));
          tp = Min (set (map snd ps)); bt = Max (set (map snd ps))
      in \<lparr>rect_left = l, rect_top = tp, rect_width = r - l, rect_height = bt - tp\<rparr>)"

definition intersects :: "FloatRect \<Rightarrow> FloatRect \<Rightarrow> bool" where
  "intersects r1 r2 =
     (let r1MinX = min (rect_left r1) (rect_left r1 + rect_width r1);
          r1MaxX = max (rect_left r1) (rect_left r1 + rect_width r1);
          r1MinY = min (rect_top r1) (rect_top r1 + rect_height r1);
          r1MaxY = max (rect_top r1) (rect_top r1 + rect_height r1);
          r2MinX = min (rect_left r2) (rect_left r2 + rect_width r2);
          r2MaxX = max (rect_left r2) (rect_left r2 + rect_width r2);
          r2MinY = min (rect_top r2) (rect_top r2 + rect_height r2);
          r2MaxY = max (rect_top r2) (rect_top r2 + rect_height r2)
      in max r1MinX r2MinX < min r1MaxX r2MaxX \<and> max r1MinY r2MinY < min r1MaxY r2MaxY)"

text \<open>
  The transform and the global bounds of an unrotated \<open>sf::Sprite\<close>: scaling about the
  origin, then the move to the position; the local bounds are the texture rectangle.
\<close>

definition sprite_getTransform :: "Sprite \<Rightarrow> sfTransform" where
  "sprite_getTransform s =
     \<lparr>a00 = fst (sprScale s), a01 = 0,
      a02 = - fst (sprOrigin s) * fst (sprScale s) + fst (sprPosition s),
      a10 = 0, a11 = snd (sprScale s),
      a12 = - snd (sprOrigin s) * snd (sprScale s) + snd (sprPosition s)\<rparr>"

definition sprite_getGlobalBounds :: "Sprite \<Rightarrow> FloatRect" where
  "sprite_getGlobalBounds s =
     transformRect (sprite_getTransform s)
       \<lparr>rect_left = 0, rect_top = 0, rect_width = \<bar>fst (sprTextureSize s)\<bar>,
        rect_height = \<bar>snd (sprTextureSize s)\<bar>\<rparr>"


section \<open>Colliders, lights and penumbras\<close>

text \<open>
  A \<open>LightCollider\<close> is a \<open>BaseLight\<close> with an \<open>sf::ConvexShape\<close> (its points, its own
  transform and its fill colour) and the light-over-shape flag.
\<close>

record LightCollider = BaseLight +
  shapePoints :: "Vector2f list"
  shapeTransform :: sfTransform
  shapeFillColor :: Color
  mLightOverShape :: bool

definition getPointCount :: "LightCollider \<Rightarrow> nat" where
  "getPointCount c = length (shapePoints c)"

definition getPoint :: "LightCollider \<Rightarrow> nat \<Rightarrow> Vector2f" where
  "getPoint c i = shapePoints c ! i"

definition setColor :: "Color \<Rightarrow> LightCollider \<Rightarrow> LightCollider" where
  "setColor col c = c\<lparr>shapeFillColor := col\<rparr>"

text \<open>The global bounds of the shape: the bounds of its points, transformed.\<close>

definition collider_getBoundingBox :: "LightCollider \<Rightarrow> FloatRect" where
  "collider_getBoundingBox c =
     (if shapePoints c = [] then transformRect (shapeTransform c)
         \<lparr>rect_left = 0, rect_top = 0, rect_width = 0, rect_height = 0\<rparr>
      else (let xs = map fst (shapePoints c); ys = map snd (shapePoints c)
            in transformRect (shapeTransform c)
                 \<lparr>rect_left = Min (set xs), rect_top = Min (set ys),
                  rect_width = Max (set xs) - Min (set xs),
                  rect_height = Max (set ys) - Min (set ys)\<rparr>))"

definition light_getBoundingBox :: "PointLight \<Rightarrow> FloatRect" where
  "light_getBoundingBox l = sprite_getGlobalBounds (mSprite l)"

definition getCastCenter :: "PointLight \<Rightarrow> Vector2f" where
  "getCastCenter l =
     transformPoint (translate (sprite_getTransform (mSprite l)) (sprOrigin (mSprite l)))
       (mSourcePoint l)"

text \<open>
  A \<open>Penumbra\<close>. Its \<open>distance\<close> field is never written nor read by the code and is
  left out.
\<close>

record Penumbra =
  source :: Vector2f
  lightEdge :: Vector2f
  darkEdge :: Vector2f
  lightBrightness :: real
  darkBrightness :: real

text \<open>The five vectors that \<open>getPenumbrasPoint\<close> receives by reference and fills.\<close>

record PenumbraData =
  penumbras :: "Penumbra list"
  innerBoundaryIndices :: "nat list"
  innerBoundaryVectors :: "Vector2f list"
  outerBoundaryIndices :: "nat list"
  outerBoundaryVectors :: "Vector2f list"

definition noPenumbraData :: PenumbraData where
  "noPenumbraData = \<lparr>penumbras = [], innerBoundaryIndices = [], innerBoundaryVectors = [],
                      outerBoundaryIndices = [], outerBoundaryVectors = []\<rparr>"

text \<open>
  What can keep \<open>getPenumbrasPoint\<close> from returning: the \<open>while\<close> loop of the chain
  walk has no bound (\<open>OutOfFuel\<close>: the model's fuel ran out), and a vector read or
  written past its end is undefined behaviour in C++ (\<open>OutOfRange\<close>).
\<close>

datatype failure = OutOfFuel | OutOfRange


section \<open>The penumbra geometry: PointLight::getPenumbrasPoint\<close>

text \<open>
  The offset perpendicular to the line from the light to a point, of the length of the
  light's radius.
\<close>

definition perpendicularOffset :: "real \<Rightarrow> Vector2f \<Rightarrow> Vector2f \<Rightarrow> Vector2f" where
  "perpendicularOffset radius sourceCenter pt =
     (let sourceToPoint = vsub pt sourceCenter
      in vmul (normalizeVector (- snd sourceToPoint, fst sourceToPoint)) radius)"

text \<open>
  The body of the first loop: the pair (facing front under the both-edges test, facing
  front under the one-edge test) of the edge from \<open>pt\<close> to \<open>nextPt\<close>.
\<close>

definition facingFront :: "real \<Rightarrow> Vector2f \<Rightarrow> Vector2f \<Rightarrow> Vector2f \<Rightarrow> bool \<times> bool" where
  "facingFront radius sourceCenter pt nextPt =
     (let po = perpendicularOffset radius sourceCenter pt;
          firstEdgeRay = vsub pt (vsub sourceCenter po);
          secondEdgeRay = vsub pt (vadd sourceCenter po);
          pn = perpendicularOffset radius sourceCenter nextPt;
          firstNextEdgeRay = vsub nextPt (vsub sourceCenter pn);
          secondNextEdgeRay = vsub nextPt (vadd sourceCenter pn);
          pointToNextPoint = vsub nextPt pt;
          normal = normalizeVector (- snd pointToNextPoint, fst pointToNextPoint);
          firstEdgeDot = dotProduct firstEdgeRay normal;
          secondEdgeDot = dotProduct secondEdgeRay normal;
          firstNextEdgeDot = dotProduct firstNextEdgeRay normal;
          secondNextEdgeDot = dotProduct secondNextEdgeRay normal
      in ((firstEdgeDot > 0 \<and> secondEdgeDot > 0) \<or> (firstNextEdgeDot > 0 \<and> secondNextEdgeDot > 0),
          firstEdgeDot > 0 \<or> secondEdgeDot > 0 \<or> firstNextEdgeDot > 0 \<or> secondNextEdgeDot > 0))"

definition nextIndex :: "nat \<Rightarrow> nat \<Rightarrow> nat" where
  "nextIndex numPoints i = (if i < numPoints - 1 then i + 1 else 0)"

definition prevIndex :: "nat \<Rightarrow> nat \<Rightarrow> nat" where
  "prevIndex numPoints i = (if i > 0 then i - 1 else numPoints - 1)"

definition facingList :: "real \<Rightarrow> Vector2f \<Rightarrow> sfTransform \<Rightarrow> LightCollider \<Rightarrow> (bool \<times> bool) list" where
  "facingList radius sourceCenter t c =
     map (\<lambda>i. facingFront radius sourceCenter (transformPoint t (getPoint c i))
                 (transformPoint t (getPoint c (nextIndex (getPointCount c) i))))
         [0 ..< getPointCount c]"

text \<open>
  The scan of a facing list, for a list that is not empty: every index from 1 on where
  the facing differs from the one before, in order, and then index 0 when the first and
  the last facing differ; each with the facing at that index, its winding.
\<close>

definition boundaryScan :: "bool list \<Rightarrow> (nat \<times> bool) list" where
  "boundaryScan facing =
     map (\<lambda>i. (i, facing ! i)) (filter (\<lambda>i. facing ! i \<noteq> facing ! (i - 1)) [1 ..< length facing])
     @ (if facing ! 0 \<noteq> facing ! (length facing - 1) then [(0, facing ! 0)] else [])"

text \<open>The vector pushed for one outer boundary index.\<close>

definition outerVector :: "real \<Rightarrow> Vector2f \<Rightarrow> sfTransform \<Rightarrow> LightCollider \<Rightarrow> nat \<times> bool \<Rightarrow> Vector2f" where
  "outerVector radius sourceCenter t c b =
     (let pt = transformPoint t (getPoint c (fst b));
          po = perpendicularOffset radius sourceCenter pt
      in if snd b then vsub pt (vadd sourceCenter po) else vsub pt (vsub sourceCenter po))"

text \<open>
  The locals of the chain walk that live across iterations of its \<open>while\<close> loop. The
  source ends the loop by setting \<open>penumbraIndex\<close> to \<open>-1\<close>; the model returns a flag
  instead, so the index is a \<open>nat\<close>.
\<close>

record WalkState =
  wIndex :: nat
  wPoint :: Vector2f
  wOuterVector :: Vector2f
  wHasPrev :: bool
  wPrevLightEdge :: Vector2f
  wPrevBrightness :: real

definition angleBetween :: "Vector2f \<Rightarrow> Vector2f \<Rightarrow> real" where
  "angleBetween u v = arccos (dotProduct (normalizeVector u) (normalizeVector v))"

text \<open>
  The two \<open>std::swap\<close> calls: the new wedge and the last wedge of the list exchange
  their dark and their light brightness.
\<close>

definition swapBrightness :: "Penumbra \<Rightarrow> Penumbra list \<Rightarrow> Penumbra \<times> Penumbra list" where
  "swapBrightness pen pens =
     (pen\<lparr>darkBrightness := darkBrightness (last pens), lightBrightness := lightBrightness (last pens)\<rparr>,
      butlast pens @ [(last pens)\<lparr>darkBrightness := darkBrightness pen,
                                   lightBrightness := lightBrightness pen\<rparr>])"

text \<open>
  \<open>if (!outerBoundaryVectors.empty()) { outerBoundaryVectors[slot] = v;
  outerBoundaryIndices[slot] = i; }\<close>
\<close>

definition setOuterBoundary :: "nat \<Rightarrow> Vector2f \<Rightarrow> nat \<Rightarrow> PenumbraData \<Rightarrow> failure + PenumbraData" where
  "setOuterBoundary slot v i d =
     (if outerBoundaryVectors d = [] then Inr d
      else if slot < length (outerBoundaryVectors d) \<and> slot < length (outerBoundaryIndices d)
      then Inr (d\<lparr>outerBoundaryVectors := (outerBoundaryVectors d)[slot := v],
                  outerBoundaryIndices := (outerBoundaryIndices d)[slot := i]\<rparr>)
      else Inl OutOfRange)"

text \<open>
  One iteration of the \<open>while\<close> loop. The source writes the body twice: for winding
  false it walks to the next point, measures against \<open>pointToNextPoint\<close>, takes the
  minus sign for the new outer vector and writes slot 0; for winding true it walks to the
  previous point, measures against \<open>pointToPrevPoint\<close>, takes the plus sign and writes
  slot 1. The result is the flag "the loop goes on", the locals and the vectors.
\<close>

definition walkStep ::
  "real \<Rightarrow> Vector2f \<Rightarrow> sfTransform \<Rightarrow> LightCollider \<Rightarrow> bool \<Rightarrow> WalkState \<times> PenumbraData
     \<Rightarrow> failure + (bool \<times> WalkState \<times> PenumbraData)" where
  "walkStep radius sourceCenter t c winding sd =
     (let st = fst sd; d = snd sd; numPoints = getPointCount c
      in if numPoints \<le> wIndex st then Inl OutOfRange
         else if wHasPrev st \<and> penumbras d = [] then Inl OutOfRange
         else if \<not> wHasPrev st \<and> innerBoundaryVectors d = [] then Inl OutOfRange
         else
          (let nextPointIndex = nextIndex numPoints (wIndex st);
               pointToNextPoint = vsub (transformPoint t (getPoint c nextPointIndex)) (wPoint st);
               prevPointIndex = prevIndex numPoints (wIndex st);
               pointToPrevPoint = vsub (transformPoint t (getPoint c prevPointIndex)) (wPoint st);
               edge = (if winding then pointToPrevPoint else pointToNextPoint);
               slot = (if winding then 1 else 0);
               pen = \<lparr>source = wPoint st,
                      lightEdge = (if wHasPrev st then wPrevLightEdge st else last (innerBoundaryVectors d)),
                      darkEdge = wOuterVector st,
                      lightBrightness = wPrevBrightness st,
                      darkBrightness = 0\<rparr>;
               intersectionAngle = angleBetween (lightEdge pen) edge;
               penumbraAngle = angleBetween (lightEdge pen) (darkEdge pen)
           in if intersectionAngle < penumbraAngle
              then (let pen1 = pen\<lparr>darkBrightness := intersectionAngle / penumbraAngle, darkEdge := edge\<rparr>;
                        newIndex = (if winding then prevPointIndex else nextPointIndex);
                        swapped = (if wHasPrev st then swapBrightness pen1 (penumbras d) else (pen1, penumbras d));
                        newPoint = transformPoint t (getPoint c newIndex);
                        po = perpendicularOffset radius sourceCenter newPoint;
                        st' = \<lparr>wIndex = newIndex, wPoint = newPoint,
                               wOuterVector = (if winding then vsub newPoint (vadd sourceCenter po)
                                               else vsub newPoint (vsub sourceCenter po)),
                               wHasPrev = True, wPrevLightEdge = edge,
                               wPrevBrightness = intersectionAngle / penumbraAngle\<rparr>
                    in case setOuterBoundary slot edge newIndex (d\<lparr>penumbras := snd swapped\<rparr>) of
                         Inl e \<Rightarrow> Inl e
                       | Inr d' \<Rightarrow> Inr (True, st', d'\<lparr>penumbras := penumbras d' @ [fst swapped]\<rparr>))
              else (let pen1 = pen\<lparr>darkBrightness := 0\<rparr>;
                        swapped = (if wHasPrev st then swapBrightness pen1 (penumbras d) else (pen1, penumbras d))
                    in case setOuterBoundary slot (darkEdge pen1) (wIndex st) (d\<lparr>penumbras := snd swapped\<rparr>) of
                         Inl e \<Rightarrow> Inl e
                       | Inr d' \<Rightarrow> Inr (False, st\<lparr>wHasPrev := False\<rparr>,
                                        d'\<lparr>penumbras := penumbras d' @ [fst swapped]\<rparr>))))"

text \<open>The \<open>while\<close> loop, with fuel: one unit for each iteration.\<close>

fun walk ::
  "nat \<Rightarrow> real \<Rightarrow> Vector2f \<Rightarrow> sfTransform \<Rightarrow> LightCollider \<Rightarrow> bool \<Rightarrow> WalkState \<times> PenumbraData
     \<Rightarrow> failure + PenumbraData" where
  "walk 0 radius sourceCenter t c winding sd = Inl OutOfFuel"
| "walk (Suc fuel) radius sourceCenter t c winding sd =
     (case walkStep radius sourceCenter t c winding sd of
        Inl e \<Rightarrow> Inl e
      | Inr (goesOn, st', d') \<Rightarrow>
          if goesOn then walk fuel radius sourceCenter t c winding (st', d') else Inr d')"

text \<open>
  The body of the loop over the inner boundary indices, for the index and winding \<open>b\<close>:
  push the inner boundary vector (and the outer one as well when there is a single inner
  index), then walk the chain from that point.
\<close>

definition innerBoundary ::
  "nat \<Rightarrow> real \<Rightarrow> Vector2f \<Rightarrow> sfTransform \<Rightarrow> LightCollider \<Rightarrow> nat \<times> bool \<Rightarrow> PenumbraData
     \<Rightarrow> failure + PenumbraData" where
  "innerBoundary fuel radius sourceCenter t c b d =
     (let pt = transformPoint t (getPoint c (fst b));
          po = perpendicularOffset radius sourceCenter pt;
          firstEdgeRay = vsub pt (vadd sourceCenter po);
          secondEdgeRay = vsub pt (vsub sourceCenter po);
          outerBoundaryVector = (if snd b then firstEdgeRay else secondEdgeRay);
          vs = innerBoundaryVectors d @ [if snd b then secondEdgeRay else firstEdgeRay];
          vs' = (if length (innerBoundaryIndices d) = 1 then vs @ [outerBoundaryVector] else vs)
      in walk fuel radius sourceCenter t c (snd b)
           (\<lparr>wIndex = fst b, wPoint = pt, wOuterVector = outerBoundaryVector, wHasPrev = False,
             wPrevLightEdge = (0, 0), wPrevBrightness = 1\<rparr>,
            d\<lparr>innerBoundaryVectors := vs'\<rparr>))"

fun innerLoop ::
  "nat \<Rightarrow> real \<Rightarrow> Vector2f \<Rightarrow> sfTransform \<Rightarrow> LightCollider \<Rightarrow> (nat \<times> bool) list \<Rightarrow> PenumbraData
     \<Rightarrow> failure + PenumbraData" where
  "innerLoop fuel radius sourceCenter t c [] d = Inr d"
| "innerLoop fuel radius sourceCenter t c (b # bs) d =
     (case innerBoundary fuel radius sourceCenter t c b d of
        Inl e \<Rightarrow> Inl e
      | Inr d' \<Rightarrow> innerLoop fuel radius sourceCenter t c bs d')"

text \<open>
  \<open>PointLight::getPenumbrasPoint\<close>. \<open>d\<close> holds the five vectors as the caller passes
  them; the function appends to them. The windings are local vectors that start empty, and
  the loops over the boundary indices run over the whole index vectors, so index vectors
  that are passed in with entries make the code read past the end of the windings.
  \<open>fuel\<close> bounds each chain walk.
\<close>

definition getPenumbrasPoint ::
  "nat \<Rightarrow> PointLight \<Rightarrow> LightCollider \<Rightarrow> sfTransform \<Rightarrow> sfTransform \<Rightarrow> PenumbraData
     \<Rightarrow> failure + PenumbraData" where
  "getPenumbrasPoint fuel light collider colliderTransform lightTransform d =
     (let sourceCenter = transformPoint lightTransform (getCastCenter light);
          numPoints = getPointCount collider
      in if numPoints = 0 then Inr d
         else if innerBoundaryIndices d \<noteq> [] \<or> outerBoundaryIndices d \<noteq> [] then Inl OutOfRange
         else
          (let colliderLocalTranform = combine (shapeTransform collider) colliderTransform;
               facing = facingList (mRadius light) sourceCenter colliderLocalTranform collider;
               inner = boundaryScan (map fst facing);
               outer = boundaryScan (map snd facing);
               d1 = d\<lparr>innerBoundaryIndices := map fst inner,
                      outerBoundaryIndices := map fst outer,
                      outerBoundaryVectors := outerBoundaryVectors d
                         @ map (outerVector (mRadius light) sourceCenter colliderLocalTranform collider) outer\<rparr>
           in innerLoop fuel (mRadius light) sourceCenter colliderLocalTranform collider inner d1))"

section \<open>Rendering: the draws as a trace of commands\<close>

text \<open>
  The render targets and the shaders are external: a render call is modelled by the list
  of commands it issues on them, in order. \<open>CallerView\<close> is the view that the caller
  passes to \<open>render\<close>.
\<close>

datatype Target = LightTexture | EmissionTexture | AntumbraTexture | CompositionTexture

datatype View = CallerView | DefaultView

datatype BlendMode = BlendAlpha | BlendAdd | BlendMultiply

datatype ShaderRef = NoShader | UnshadowShader | LightOverShapeShader

record RenderStates =
  blendMode :: BlendMode
  statesTransform :: sfTransform
  shader :: ShaderRef

text \<open>A default-constructed \<open>sf::RenderStates\<close>.\<close>

definition defaultStates :: RenderStates where
  "defaultStates = \<lparr>blendMode = BlendAlpha, statesTransform = Identity, shader = NoShader\<rparr>"

record Vertex =
  position :: Vector2f
  texCoords :: Vector2f

datatype Drawable =
    SpriteDrawable Sprite
  | ShapeDrawable "Vector2f list" sfTransform Color
  | TrianglesDrawable "Vertex list"
  | TextureDrawable Target

datatype Command =
    Clear Target Color
  | SetView Target View
  | SetUniform ShaderRef string real
  | Draw Target Drawable RenderStates
  | Display Target

text \<open>\<open>BaseLight::unmaskWithPenumbras\<close>: two uniforms and one triangle for each wedge.\<close>

definition unmaskPenumbra :: "Target \<Rightarrow> RenderStates \<Rightarrow> real \<Rightarrow> Penumbra \<Rightarrow> Command list" where
  "unmaskPenumbra target states shadowExtension p =
     [SetUniform UnshadowShader ''lightBrightness'' (lightBrightness p),
      SetUniform UnshadowShader ''darkBrightness'' (darkBrightness p),
      Draw target
        (TrianglesDrawable
          [\<lparr>position = source p, texCoords = (0, 1)\<rparr>,
           \<lparr>position = vadd (source p) (vmul (normalizeVector (lightEdge p)) shadowExtension),
            texCoords = (1, 0)\<rparr>,
           \<lparr>position = vadd (source p) (vmul (normalizeVector (darkEdge p)) shadowExtension),
            texCoords = (0, 0)\<rparr>])
        (states\<lparr>shader := UnshadowShader\<rparr>)]"

definition unmaskWithPenumbras :: "Target \<Rightarrow> RenderStates \<Rightarrow> Penumbra list \<Rightarrow> real \<Rightarrow> Command list" where
  "unmaskWithPenumbras target states pens shadowExtension =
     concat (map (unmaskPenumbra target states shadowExtension) pens)"

text \<open>\<open>LightCollider::render\<close>: the shape is drawn with its current fill colour.\<close>

definition collider_render :: "Target \<Rightarrow> RenderStates \<Rightarrow> LightCollider \<Rightarrow> Command" where
  "collider_render target states c =
     Draw target (ShapeDrawable (shapePoints c) (shapeTransform c) (shapeFillColor c)) states"

text \<open>A local \<open>sf::ConvexShape maskShape\<close> with black fill, drawn with default states.\<close>

definition drawMask :: "Target \<Rightarrow> Vector2f list \<Rightarrow> Command" where
  "drawMask target pts = Draw target (ShapeDrawable pts Identity Black) defaultStates"

definition getShadowExtension :: "PointLight \<Rightarrow> real" where
  "getShadowExtension light =
     mShadowOverExtendMultiplier light
       * (rect_width (light_getBoundingBox light) + rect_height (light_getBoundingBox light))"

text \<open>
  \<open>rayIntersect\<close> of \<open>ungod/physics/Physics.h\<close> is not among the sources and is taken
  as a parameter \<open>ri\<close>: \<open>Some p\<close> for \<open>true\<close> with the intersection \<open>p\<close> written to
  the out-parameter, \<open>None\<close> for \<open>false\<close>.
\<close>

type_synonym RayIntersect = "Vector2f \<Rightarrow> Vector2f \<Rightarrow> Vector2f \<Rightarrow> Vector2f \<Rightarrow> Vector2f option"

text \<open>
  The loop body of \<open>PointLight::render\<close> after the boundary counts were found to be
  2 and 2, for the collider \<open>lc\<close> with transform \<open>colliderTransf\<close> and the vectors
  \<open>d\<close> that \<open>getPenumbrasPoint\<close> filled: the commands, and the collider with its new
  fill colour.
\<close>

definition castShadow ::
  "RayIntersect \<Rightarrow> PointLight \<Rightarrow> LightCollider \<Rightarrow> sfTransform \<Rightarrow> PenumbraData
     \<Rightarrow> Command list \<times> LightCollider" where
  "castShadow ri light lc colliderTransf d =
     (let shadowExtension = getShadowExtension light;
          colliderFinalTransf = combine colliderTransf (shapeTransform lc);
          colliderStates = defaultStates\<lparr>statesTransform := colliderTransf\<rparr>;
          lc' = setColor Black lc;
          silhouette = (if \<not> mLightOverShape lc' then [collider_render LightTexture colliderStates lc'] else []);
          as = transformPoint colliderFinalTransf (getPoint lc' (outerBoundaryIndices d ! 0));
          bs = transformPoint colliderFinalTransf (getPoint lc' (outerBoundaryIndices d ! 1));
          ad = outerBoundaryVectors d ! 0;
          bd = outerBoundaryVectors d ! 1
      in case ri as ad bs bd of
           Some intersectionOuter \<Rightarrow>
             (let asi = transformPoint colliderFinalTransf (getPoint lc' (innerBoundaryIndices d ! 0));
                  bsi = transformPoint colliderFinalTransf (getPoint lc' (innerBoundaryIndices d ! 1));
                  adi = innerBoundaryVectors d ! 0;
                  bdi = innerBoundaryVectors d ! 1
              in (silhouette
                  @ [Clear AntumbraTexture White, SetView AntumbraTexture CallerView]
                  @ [case ri asi adi bsi bdi of
                       Some intersectionInner \<Rightarrow> drawMask AntumbraTexture [asi, bsi, intersectionInner]
                     | None \<Rightarrow> drawMask AntumbraTexture
                         [asi, bsi, vadd bsi (vmul (normalizeVector bdi) shadowExtension),
                          vadd asi (vmul (normalizeVector adi) shadowExtension)]]
                  @ unmaskWithPenumbras AntumbraTexture (defaultStates\<lparr>blendMode := BlendAdd\<rparr>)
                      (penumbras d) shadowExtension
                  @ [Display AntumbraTexture,
                     SetView LightTexture DefaultView,
                     Draw LightTexture (TextureDrawable AntumbraTexture)
                       (defaultStates\<lparr>blendMode := BlendMultiply\<rparr>),
                     SetView LightTexture CallerView],
                  lc'))
         | None \<Rightarrow>
             (silhouette
              @ [drawMask LightTexture
                   [as, bs, vadd bs (vmul (normalizeVector bd) shadowExtension),
                    vadd as (vmul (normalizeVector ad) shadowExtension)]]
              @ unmaskWithPenumbras LightTexture (defaultStates\<lparr>blendMode := BlendMultiply\<rparr>)
                  (penumbras d) shadowExtension,
              lc'))"

text \<open>
  The whole body of the first loop. The vectors are cleared (the outer ones are fresh)
  before each call of \<open>getPenumbrasPoint\<close>; counts other than 2 and 2 take the
  \<open>continue\<close>.
\<close>

definition shadeCollider ::
  "nat \<Rightarrow> RayIntersect \<Rightarrow> PointLight \<Rightarrow> sfTransform \<Rightarrow> LightCollider \<times> sfTransform
     \<Rightarrow> failure + (Command list \<times> LightCollider)" where
  "shadeCollider fuel ri light transf ct =
     (if mActive (fst ct)
      then (case getPenumbrasPoint fuel light (fst ct) (snd ct) transf noPenumbraData of
              Inl e \<Rightarrow> Inl e
            | Inr d \<Rightarrow>
                if length (innerBoundaryIndices d) \<noteq> 2 \<or> length (outerBoundaryIndices d) \<noteq> 2
                then Inr ([], fst ct)
                else Inr (castShadow ri light (fst ct) (snd ct) d))
      else Inr ([], fst ct))"

fun shadeColliders ::
  "nat \<Rightarrow> RayIntersect \<Rightarrow> PointLight \<Rightarrow> sfTransform \<Rightarrow> (LightCollider \<times> sfTransform) list
     \<Rightarrow> failure + (Command list \<times> (LightCollider \<times> sfTransform) list)" where
  "shadeColliders fuel ri light transf [] = Inr ([], [])"
| "shadeColliders fuel ri light transf (ct # cts) =
     (case shadeCollider fuel ri light transf ct of
        Inl e \<Rightarrow> Inl e
      | Inr (cmds, lc') \<Rightarrow>
          (case shadeColliders fuel ri light transf cts of
             Inl e \<Rightarrow> Inl e
           | Inr (cmds', cts') \<Rightarrow> Inr (cmds @ cmds', (lc', snd ct) # cts')))"

text \<open>The second loop: every collider is coloured and drawn with the light-over-shape shader.\<close>

definition overShape :: "LightCollider \<times> sfTransform \<Rightarrow> Command \<times> (LightCollider \<times> sfTransform)" where
  "overShape ct =
     (let colliderStates = defaultStates\<lparr>shader := LightOverShapeShader, statesTransform := snd ct\<rparr>;
          collider = (if mLightOverShape (fst ct) then setColor White (fst ct) else setColor Black (fst ct))
      in (collider_render LightTexture colliderStates collider, (collider, snd ct)))"

text \<open>
  \<open>PointLight::render\<close>. The colliders are handed over as pointers and the code
  colours them: the result is the trace and the colliders as they are after the call.
\<close>

definition render ::
  "nat \<Rightarrow> RayIntersect \<Rightarrow> PointLight \<Rightarrow> (LightCollider \<times> sfTransform) list \<Rightarrow> sfTransform
     \<Rightarrow> failure + (Command list \<times> (LightCollider \<times> sfTransform) list)" where
  "render fuel ri light colliders transf =
     (case shadeColliders fuel ri light transf colliders of
        Inl e \<Rightarrow> Inl e
      | Inr (cmds, cts) \<Rightarrow>
          Inr ([Clear LightTexture Black,
                SetView LightTexture CallerView,
                Draw LightTexture (SpriteDrawable (mSprite light)) (defaultStates\<lparr>statesTransform := transf\<rparr>)]
               @ cmds
               @ map (fst \<circ> overShape) cts
               @ [Display LightTexture],
               map (snd \<circ> overShape) cts))"

text \<open>
  \<open>LightSystem::renderLight\<close>. \<open>pulled\<close> are the colliders, each with the transform of
  its entity, that the quad tree hands out for the light; the ones whose bounds meet the
  bounds of the light are rendered, and the light texture is added to the composition.
\<close>

definition inRange :: "PointLight \<Rightarrow> sfTransform \<Rightarrow> LightCollider \<times> sfTransform \<Rightarrow> bool" where
  "inRange light lightTransf ct =
     intersects (transformRect (snd ct) (collider_getBoundingBox (fst ct)))
                (transformRect lightTransf (light_getBoundingBox light))"

definition renderLight ::
  "nat \<Rightarrow> RayIntersect \<Rightarrow> RenderStates \<Rightarrow> PointLight \<Rightarrow> sfTransform \<Rightarrow> (LightCollider \<times> sfTransform) list
     \<Rightarrow> failure + (Command list \<times> (LightCollider \<times> sfTransform) list)" where
  "renderLight fuel ri states light lightTransf pulled =
     (case render fuel ri light (filter (inRange light lightTransf) pulled) lightTransf of
        Inl e \<Rightarrow> Inl e
      | Inr (cmds, cts) \<Rightarrow>
          Inr (cmds @ [Draw CompositionTexture (TextureDrawable LightTexture) (states\<lparr>blendMode := BlendAdd\<rparr>)],
               cts))"

section \<open>Convexity and two concrete scenes\<close>

text \<open>
  Convexity is the caller's duty and is not checked by the code. For the statements that
  speak of convex polygons: a polygon of at least three points is convex when it turns
  the same way at every corner.
\<close>

definition cross :: "Vector2f \<Rightarrow> Vector2f \<Rightarrow> real" where
  "cross p q = fst p * snd q - snd p * fst q"

definition turns :: "Vector2f list \<Rightarrow> real list" where
  "turns pts =
     map (\<lambda>i. cross (vsub (pts ! nextIndex (length pts) i) (pts ! i))
                    (vsub (pts ! nextIndex (length pts) (nextIndex (length pts) i))
                          (pts ! nextIndex (length pts) i)))
         [0 ..< length pts]"

definition isConvex :: "Vector2f list \<Rightarrow> bool" where
  "isConvex pts = (3 \<le> length pts \<and> (list_all (\<lambda>x. 0 < x) (turns pts) \<or> list_all (\<lambda>x. x < 0) (turns pts)))"

text \<open>
  The light of both scenes is \<open>unitLight\<close>: cast centre \<open>(0, 0)\<close>, radius 10, bounds
  from \<open>(-16, -16)\<close> to \<open>(16, 16)\<close>. The first collider is a triangle to the right of
  the light, out of its bounds; the second is a rectangle of 9.6 by 2.8 with the light in its centre, each
  corner 5 away from it.
\<close>

definition triCollider :: LightCollider where
  "triCollider = \<lparr>mActive = True, shapePoints = [(24, 0), (40, - 30), (40, 0)],
     shapeTransform = Identity, shapeFillColor = Black, mLightOverShape = False\<rparr>"

definition rectCollider :: LightCollider where
  "rectCollider = \<lparr>mActive = True, shapePoints = [(24 / 5, 7 / 5), (- 24 / 5, 7 / 5), (- 24 / 5, - 7 / 5), (24 / 5, - 7 / 5)],
     shapeTransform = Identity, shapeFillColor = Black, mLightOverShape = False\<rparr>"

text \<open>What \<open>getPenumbrasPoint\<close> computes for the triangle.\<close>

definition triData :: PenumbraData where
  "triData = \<lparr>penumbras =
       [\<lparr>source = (40, - 30), lightEdge = (34, - 38), darkEdge = (46, - 22),
         lightBrightness = 1, darkBrightness = 0\<rparr>,
        \<lparr>source = (24, 0), lightEdge = (24, 10), darkEdge = (16, 0),
         lightBrightness = 1 / 2, darkBrightness = 0\<rparr>,
        \<lparr>source = (40, 0), lightEdge = (16, 0), darkEdge = (40, - 10),
         lightBrightness = 1, darkBrightness = 1 / 2\<rparr>],
     innerBoundaryIndices = [1, 0], innerBoundaryVectors = [(34, - 38), (24, 10)],
     outerBoundaryIndices = [1, 2], outerBoundaryVectors = [(46, - 22), (40, - 10)]\<rparr>"






text \<open>A collider without points, and a wedge with edges of length 5.\<close>

definition emptyCollider :: LightCollider where
  "emptyCollider = \<lparr>mActive = True, shapePoints = [], shapeTransform = Identity,
     shapeFillColor = Black, mLightOverShape = False\<rparr>"

definition unitWedge :: Penumbra where
  "unitWedge = \<lparr>source = (0, 0), lightEdge = (3, 4), darkEdge = (4, 3),
                 lightBrightness = 1, darkBrightness = 0\<rparr>"

text \<open>Two stand-ins for \<open>rayIntersect\<close>: rays that never meet, rays that meet in the origin.\<close>

definition neverIntersect :: RayIntersect where
  "neverIntersect p u q v = None"



section \<open>The quantities the claims speak of\<close>








text \<open>The triangle with the light-over-shape flag set.\<close>

definition triOverShape :: LightCollider where
  "triOverShape = \<lparr>mActive = True, shapePoints = [(24, 0), (40, - 30), (40, 0)],
     shapeTransform = Identity, shapeFillColor = Black, mLightOverShape = True\<rparr>"


section \<open>Lemmas about the model\<close>

subsection \<open>Angles\<close>

lemma magnitude_nonneg: "0 \<le> magnitude u" by (simp add: magnitude_def)

lemma magnitude_zero: "magnitude u = 0 \<Longrightarrow> u = (0, 0)"
  by (cases u) (auto simp: magnitude_def add_nonneg_eq_0_iff)

lemma dot_normalize:
  "magnitude u \<noteq> 0 \<Longrightarrow> magnitude v \<noteq> 0 \<Longrightarrow>
   dotProduct (normalizeVector u) (normalizeVector v) = dotProduct u v / (magnitude u * magnitude v)"
  by (simp add: dotProduct_def normalizeVector_def add_divide_distrib)

lemma dot_normalize_bound: "\<bar>dotProduct (normalizeVector u) (normalizeVector v)\<bar> \<le> 1"
proof (cases "magnitude u = 0 \<or> magnitude v = 0")
  case True
  then have "u = (0, 0) \<or> v = (0, 0)" using magnitude_zero by blast
  then show ?thesis by (auto simp: dotProduct_def normalizeVector_def)
next
  case False
  obtain a b where u: "u = (a, b)" by (cases u)
  obtain c d where v: "v = (c, d)" by (cases v)
  let ?m = "magnitude u" and ?n = "magnitude v"
  have m: "?m > 0" and n: "?n > 0"
    using False magnitude_nonneg[of u] magnitude_nonneg[of v] by simp_all
  have m2: "?m * ?m = a * a + b * b" and n2: "?n * ?n = c * c + d * d"
    by (simp_all add: magnitude_def u v)
  have "(a * c + b * d)\<^sup>2 \<le> (a * a + b * b) * (c * c + d * d)"
  proof -
    have "(a * a + b * b) * (c * c + d * d) - (a * c + b * d)\<^sup>2 = (a * d - b * c)\<^sup>2"
      by (simp add: power2_eq_square algebra_simps)
    moreover have "0 \<le> (a * d - b * c)\<^sup>2" by simp
    ultimately show ?thesis by linarith
  qed
  also have "\<dots> = (?m * ?n)\<^sup>2"
    using m2 n2 by (simp add: power2_eq_square algebra_simps)
  finally have "\<bar>a * c + b * d\<bar> \<le> ?m * ?n"
    using m n by (metis abs_le_square_iff abs_of_pos mult_pos_pos)
  then have "\<bar>(a * c + b * d) / (?m * ?n)\<bar> \<le> 1" using m n by (simp add: abs_mult)
  moreover have "dotProduct (normalizeVector u) (normalizeVector v) = (a * c + b * d) / (?m * ?n)"
    using False by (simp add: dot_normalize) (simp add: dotProduct_def u v)
  ultimately show ?thesis by simp
qed

text \<open>An edge at a right or obtuse angle to the light edge ends the walk when the dark edge is at an acute one.\<close>

lemma angle_not_less:
  assumes "dotProduct u v \<le> 0" and "0 < dotProduct u w"
  shows "\<not> angleBetween u v < angleBetween u w"
proof -
  have nz: "magnitude u \<noteq> 0" "magnitude w \<noteq> 0"
    using assms(2) magnitude_zero[of u] magnitude_zero[of w] by (auto simp: dotProduct_def)
  have pos: "0 < magnitude u * magnitude w"
    using nz magnitude_nonneg[of u] magnitude_nonneg[of w] by (simp add: less_le)
  have w: "0 < dotProduct (normalizeVector u) (normalizeVector w)"
    using assms(2) nz pos by (simp add: dot_normalize)
  have v: "dotProduct (normalizeVector u) (normalizeVector v) \<le> 0"
  proof (cases "magnitude v = 0")
    case True
    then have "v = (0, 0)" by (rule magnitude_zero)
    then show ?thesis by (simp add: dotProduct_def normalizeVector_def)
  next
    case False
    then have "0 < magnitude u * magnitude v"
      using nz magnitude_nonneg[of u] magnitude_nonneg[of v] by (simp add: less_le)
    then show ?thesis using assms(1) nz False
      by (simp add: dot_normalize divide_le_0_iff)
  qed
  show ?thesis
    unfolding angleBetween_def
    using arccos_less_mono[OF dot_normalize_bound dot_normalize_bound, of u v u w] v w by simp
qed

lemma arccos_double: "arccos (119 / 169) = 2 * arccos (12 / 13)"
proof -
  let ?t = "arccos (12 / 13 :: real)"
  have c: "cos ?t = 12 / 13" by (simp add: cos_arccos)
  have lo: "0 \<le> ?t" by (simp add: arccos_lbound)
  have hi: "?t \<le> pi / 2" by (rule arccos_le_pi2) simp_all
  have d: "cos (2 * ?t) = 119 / 169" by (simp add: cos_double_cos c power2_eq_square)
  have "arccos (119 / 169) = arccos (cos (2 * ?t))" by (subst d) (rule refl)
  also have "\<dots> = 2 * ?t" using lo hi by (intro arccos_cos) simp_all
  finally show ?thesis .
qed

lemma arccos_12_13_pos: "0 < arccos (12 / 13 :: real)"
  using arccos_less_arccos[of "12 / 13" 1] by simp

lemma tri_angle_edge: "angleBetween (24, 10) (16, 0) = arccos (12 / 13)"
  by (simp add: angleBetween_def dotProduct_def normalizeVector_def magnitude_def)

lemma tri_angle_dark: "angleBetween (24, 10) (24, - 10) = 2 * arccos (12 / 13)"
  by (simp add: angleBetween_def dotProduct_def normalizeVector_def magnitude_def arccos_double)

lemma tri_goes_on: "angleBetween (24, 10) (16, 0) < angleBetween (24, 10) (24, - 10)"
  using arccos_12_13_pos by (simp add: tri_angle_edge tri_angle_dark)

lemma tri_ratio: "angleBetween (24, 10) (16, 0) / angleBetween (24, 10) (24, - 10) = 1 / 2"
  using arccos_12_13_pos by (simp add: tri_angle_edge tri_angle_dark)

lemma tri_stops_first: "\<not> angleBetween (34, - 38) (0, 30) < angleBetween (34, - 38) (46, - 22)"
  by (rule angle_not_less) (simp_all add: dotProduct_def)

lemma tri_stops_second: "\<not> angleBetween (16, 0) (0, - 30) < angleBetween (16, 0) (40, - 10)"
  by (rule angle_not_less) (simp_all add: dotProduct_def)

subsection \<open>The two scenes, evaluated\<close>

lemma unitLight_center: "transformPoint Identity (getCastCenter unitLight) = (0, 0)"
  by (simp add: getCastCenter_def unitLight_def translate_def combine_def sprite_getTransform_def
      transformPoint_def Identity_def)

lemma unitLight_radius: "mRadius unitLight = 10"
  by (simp add: unitLight_def)

lemma unitLight_bounds:
  "light_getBoundingBox unitLight = \<lparr>rect_left = - 16, rect_top = - 16, rect_width = 32, rect_height = 32\<rparr>"
  by (simp add: light_getBoundingBox_def sprite_getGlobalBounds_def sprite_getTransform_def
      transformRect_def transformPoint_def unitLight_def Let_def)

lemma combine_Identity: "combine Identity Identity = Identity"
  by (simp add: combine_def Identity_def)

lemma transformPoint_Identity: "transformPoint Identity p = p"
  by (simp add: transformPoint_def Identity_def)

lemmas geometry_defs = transformPoint_Identity getPointCount_def getPoint_def nextIndex_def prevIndex_def
  perpendicularOffset_def vsub_def vadd_def vmul_def normalizeVector_def magnitude_def

lemma tri_facing:
  assumes "shapePoints c = [(24, 0), (40, - 30), (40, 0)]"
  shows "facingList 10 (0, 0) Identity c = [(True, True), (False, False), (False, True)]"
  by (simp add: facingList_def facingFront_def assms geometry_defs dotProduct_def upt_rec Let_def)


lemma scan_tri_inner: "boundaryScan [True, False, False] = [(1, False), (0, True)]"
  by (simp add: boundaryScan_def upt_rec)

lemma scan_tri_outer: "boundaryScan [True, False, True] = [(1, False), (2, True)]"
  by (simp add: boundaryScan_def upt_rec)





lemma tri_eval_points:
  assumes p: "shapePoints c = [(24, 0), (40, - 30), (40, 0)]" and t: "shapeTransform c = Identity"
  shows "getPenumbrasPoint (Suc (Suc fuel)) unitLight c Identity Identity noPenumbraData = Inr triData"
proof -
  have n: "getPointCount c = 3"
    by (simp add: p getPointCount_def)
  show ?thesis
    unfolding getPenumbrasPoint_def unitLight_center
    apply (simp add: Let_def unitLight_radius combine_Identity tri_facing[OF p] scan_tri_inner scan_tri_outer
        noPenumbraData_def n t cong: sum.case_cong_weak)
    apply (simp add: outerVector_def innerBoundary_def walkStep_def setOuterBoundary_def swapBrightness_def
        p geometry_defs tri_goes_on tri_ratio tri_stops_first tri_stops_second Let_def triData_def
        cong: sum.case_cong_weak)
    done
qed

lemma tri_eval:
  "getPenumbrasPoint (Suc (Suc fuel)) unitLight triCollider Identity Identity noPenumbraData = Inr triData"
  by (rule tri_eval_points) (simp_all add: triCollider_def)


lemma tri_convex: "isConvex (shapePoints triCollider)"
  by (simp add: isConvex_def turns_def cross_def triCollider_def nextIndex_def vsub_def upt_rec)


lemma tri_out_of_range: "\<not> inRange unitLight Identity (triCollider, Identity)"
  by (simp add: inRange_def unitLight_bounds collider_getBoundingBox_def triCollider_def
      transformRect_def transformPoint_Identity intersects_def Let_def)

subsection \<open>The boundary scan finds an even number of boundaries\<close>



subsection \<open>The chain walk keeps the number of boundary indices\<close>







subsection \<open>More fuel does not change a result\<close>

lemma walk_fuel_mono:
  "walk fuel radius sourceCenter t c winding sd = Inr d \<Longrightarrow>
   walk (fuel + k) radius sourceCenter t c winding sd = Inr d"
proof (induction fuel arbitrary: sd)
  case 0
  then show ?case by simp
next
  case (Suc fuel)
  from Suc.prems obtain goesOn st1 d1 where
    step: "walkStep radius sourceCenter t c winding sd = Inr (goesOn, st1, d1)"
    by (auto split: sum.splits)
  show ?case
  proof (cases goesOn)
    case True
    with Suc.prems step have "walk fuel radius sourceCenter t c winding (st1, d1) = Inr d" by simp
    from Suc.IH[OF this] step True show ?thesis by simp
  next
    case False
    with Suc.prems step show ?thesis by simp
  qed
qed

lemma innerLoop_fuel_mono:
  "innerLoop fuel radius sourceCenter t c bs d = Inr d' \<Longrightarrow>
   innerLoop (fuel + k) radius sourceCenter t c bs d = Inr d'"
proof (induction bs arbitrary: d)
  case Nil
  then show ?case by simp
next
  case (Cons b bs)
  from Cons.prems obtain d1 where
    b: "innerBoundary fuel radius sourceCenter t c b d = Inr d1"
    and r: "innerLoop fuel radius sourceCenter t c bs d1 = Inr d'"
    by (auto split: sum.splits)
  from b have "innerBoundary (fuel + k) radius sourceCenter t c b d = Inr d1"
    unfolding innerBoundary_def Let_def by (rule walk_fuel_mono)
  with Cons.IH[OF r] show ?case by simp
qed

lemma getPenumbrasPoint_fuel_mono:
  "getPenumbrasPoint fuel light collider colliderTransform lightTransform d = Inr out \<Longrightarrow>
   getPenumbrasPoint (fuel + k) light collider colliderTransform lightTransform d = Inr out"
  by (auto simp: getPenumbrasPoint_def Let_def innerLoop_fuel_mono split: if_splits)

subsection \<open>Unmasking\<close>

lemma unmaskWithPenumbras_Cons:
  "unmaskWithPenumbras target states (p # ps) ext
     = unmaskPenumbra target states ext p @ unmaskWithPenumbras target states ps ext"
  by (simp add: unmaskWithPenumbras_def)

lemma unmaskPenumbra_length: "length (unmaskPenumbra target states ext p) = 3"
  by (simp add: unmaskPenumbra_def)

lemma unmaskWithPenumbras_length:
  "length (unmaskWithPenumbras target states ps ext) = 3 * length ps"
  by (induction ps) (simp_all add: unmaskWithPenumbras_Cons unmaskPenumbra_length unmaskWithPenumbras_def)

subsection \<open>One iteration of the chain walk\<close>


subsection \<open>The render loops\<close>

lemma castShadow_collider: "snd (castShadow ri light lc colliderTransf d) = setColor Black lc"
  by (simp add: castShadow_def Let_def split: option.splits)

lemma overShape_collider:
  "snd (overShape ct)
     = ((fst ct)\<lparr>shapeFillColor := (if mLightOverShape (fst ct) then White else Black)\<rparr>, snd ct)"
  by (simp add: overShape_def setColor_def Let_def)

lemma shadeCollider_recolor:
  assumes "shadeCollider fuel ri light transf ct = Inr (cmds, lc')"
  shows "snd (overShape (lc', snd ct)) = snd (overShape ct)"
proof -
  from assms have "lc' = fst ct \<or> lc' = setColor Black (fst ct)"
    using castShadow_collider[of ri light "fst ct" "snd ct"]
    by (auto simp: shadeCollider_def split: if_splits sum.splits) (metis snd_conv)
  then show ?thesis by (auto simp: overShape_collider setColor_def)
qed

lemma shadeColliders_recolor:
  "shadeColliders fuel ri light transf cts = Inr (cmds, cts') \<Longrightarrow>
   map (snd \<circ> overShape) cts' = map (snd \<circ> overShape) cts"
proof (induction cts arbitrary: cmds cts')
  case Nil
  then show ?case by simp
next
  case (Cons ct cts)
  from Cons.prems obtain k lc' ks rest where
    h: "shadeCollider fuel ri light transf ct = Inr (k, lc')"
    and t: "shadeColliders fuel ri light transf cts = Inr (ks, rest)"
    and r: "cts' = (lc', snd ct) # rest"
    by (auto split: sum.splits)
  from shadeCollider_recolor[OF h] Cons.IH[OF t] r show ?case by simp
qed



lemma tri_eval_2:
  "getPenumbrasPoint 2 unitLight triCollider Identity Identity noPenumbraData = Inr triData"
  using tri_eval[of 0] by (simp add: numeral_2_eq_2)

lemma triOverShape_eval_2:
  "getPenumbrasPoint 2 unitLight triOverShape Identity Identity noPenumbraData = Inr triData"
  using tri_eval_points[of triOverShape 0] by (simp add: numeral_2_eq_2 triOverShape_def)


lemma tri_counts:
  "length (innerBoundaryIndices triData) = 2" "length (outerBoundaryIndices triData) = 2"
  by (simp_all add: triData_def)

lemma colliders_active: "mActive triCollider" "mActive triOverShape" "mActive rectCollider"
  by (simp_all add: triCollider_def triOverShape_def rectCollider_def)

lemma tri_shade:
  "shadeCollider 2 ri unitLight Identity (triCollider, Identity)
     = Inr (castShadow ri unitLight triCollider Identity triData)"
  by (simp add: shadeCollider_def colliders_active tri_eval_2 tri_counts)

lemma triOverShape_shade:
  "shadeCollider 2 ri unitLight Identity (triOverShape, Identity)
     = Inr (castShadow ri unitLight triOverShape Identity triData)"
  by (simp add: shadeCollider_def colliders_active triOverShape_eval_2 tri_counts)



section \<open>The claims\<close>












text \<open>
  C5, as amended. For every wedge of the list, \<open>unmaskWithPenumbras\<close> draws one
  triangle (the third of the three commands for that wedge): the source point with
  texture coordinates \<open>(0, 1)\<close>, the source extended by the shadow extension along the
  normalised light edge with \<open>(1, 0)\<close>, and the source extended along the normalised
  dark edge with \<open>(0, 0)\<close>.
\<close>

theorem unmask_draws_wedge_triangles:
  "i < length pens \<Longrightarrow>
   length (unmaskWithPenumbras target states pens shadowExtension) = 3 * length pens
   \<and> unmaskWithPenumbras target states pens shadowExtension ! (3 * i + 2)
       = Draw target
           (TrianglesDrawable
             [\<lparr>position = source (pens ! i), texCoords = (0, 1)\<rparr>,
              \<lparr>position = vadd (source (pens ! i))
                               (vmul (normalizeVector (lightEdge (pens ! i))) shadowExtension),
               texCoords = (1, 0)\<rparr>,
              \<lparr>position = vadd (source (pens ! i))
                               (vmul (normalizeVector (darkEdge (pens ! i))) shadowExtension),
               texCoords = (0, 0)\<rparr>])
           (states\<lparr>shader := UnshadowShader\<rparr>)"
proof (induction pens arbitrary: i)
  case Nil
  then show ?case by simp
next
  case (Cons p ps)
  show ?case
  proof (cases i)
    case 0
    then show ?thesis
      by (simp add: unmaskWithPenumbras_Cons unmaskWithPenumbras_length unmaskPenumbra_length)
         (simp add: unmaskPenumbra_def)
  next
    case (Suc j)
    with Cons.prems have j: "j < length ps" by simp
    have idx: "3 * i + 2 = 3 + (3 * j + 2)" using Suc by simp
    have "unmaskWithPenumbras target states (p # ps) shadowExtension ! (3 * i + 2)
            = unmaskWithPenumbras target states ps shadowExtension ! (3 * j + 2)"
      unfolding idx unmaskWithPenumbras_Cons
      using nth_append_length_plus[of "unmaskPenumbra target states shadowExtension p"
              "unmaskWithPenumbras target states ps shadowExtension" "3 * j + 2"]
      by (simp add: unmaskPenumbra_length)
    with Cons.IH[OF j] Suc show ?thesis
      by (simp add: unmaskWithPenumbras_length)
  qed
qed

theorem unmask_draws_wedge_triangles_witness:
  "0 < length [unitWedge]
   \<and> length (unmaskWithPenumbras LightTexture defaultStates [unitWedge] 5) = 3
   \<and> unmaskWithPenumbras LightTexture defaultStates [unitWedge] 5 ! 2
       = Draw LightTexture
           (TrianglesDrawable
             [\<lparr>position = (0, 0), texCoords = (0, 1)\<rparr>,
              \<lparr>position = (3, 4), texCoords = (1, 0)\<rparr>,
              \<lparr>position = (4, 3), texCoords = (0, 0)\<rparr>])
           (defaultStates\<lparr>shader := UnshadowShader\<rparr>)"
proof -
  have h: "0 < length [unitWedge]" by simp
  from unmask_draws_wedge_triangles[OF h, of LightTexture defaultStates 5] show ?thesis
    by (simp add: unitWedge_def vadd_def vmul_def normalizeVector_def magnitude_def numeral_2_eq_2)
qed

text \<open>
  The claim as stated fails: for a wedge with source \<open>(0, 0)\<close> and dark apex
  \<open>(4, 3)\<close>, the texture coordinates \<open>(0, 1)\<close> go to the source and \<open>(0, 0)\<close> to
  the dark apex, not the other way round.
\<close>

theorem unmask_source_has_texcoord_0_1:
  "unmaskWithPenumbras LightTexture defaultStates [unitWedge] 5
     = [SetUniform UnshadowShader ''lightBrightness'' 1,
        SetUniform UnshadowShader ''darkBrightness'' 0,
        Draw LightTexture
          (TrianglesDrawable
            [\<lparr>position = source unitWedge, texCoords = (0, 1)\<rparr>,
             \<lparr>position = (3, 4), texCoords = (1, 0)\<rparr>,
             \<lparr>position = (4, 3), texCoords = (0, 0)\<rparr>])
          (defaultStates\<lparr>shader := UnshadowShader\<rparr>)]
   \<and> source unitWedge = (0, 0)
   \<and> vadd (source unitWedge) (vmul (normalizeVector (darkEdge unitWedge)) 5) = (4, 3)"
  by (simp add: unmaskWithPenumbras_def unmaskPenumbra_def unitWedge_def vadd_def vmul_def
      normalizeVector_def magnitude_def)

text \<open>
  C6, as amended. \<open>PointLight::render\<close> is a const member and leaves the light as it
  is. When it returns, every collider of the list has its points, its transform, its
  active flag and its light-over-shape flag as before, and its fill colour is set: white
  for a light-over-shape collider, black for every other one.
\<close>

theorem render_recolours_colliders:
  assumes "render fuel ri light colliders transf = Inr (cmds, cts)"
  shows "cts = map (\<lambda>ct. ((fst ct)\<lparr>shapeFillColor := (if mLightOverShape (fst ct) then White else Black)\<rparr>,
                           snd ct)) colliders"
proof -
  from assms obtain k cts' where
    s: "shadeColliders fuel ri light transf colliders = Inr (k, cts')"
    and c: "cts = map (snd \<circ> overShape) cts'"
    by (auto simp: render_def split: sum.splits)
  from shadeColliders_recolor[OF s] c have "cts = map (snd \<circ> overShape) colliders" by simp
  then show ?thesis by (simp add: overShape_collider comp_def)
qed

theorem render_recolours_colliders_witness:
  "(case render 2 neverIntersect unitLight [(triOverShape, Identity), (triCollider, Identity)] Identity of
      Inl e \<Rightarrow> False
    | Inr (cmds, cts) \<Rightarrow>
        cts = [(triOverShape\<lparr>shapeFillColor := White\<rparr>, Identity),
               (triCollider\<lparr>shapeFillColor := Black\<rparr>, Identity)])"
proof -
  have "shadeColliders 2 neverIntersect unitLight Identity [(triOverShape, Identity), (triCollider, Identity)]
          = Inr (fst (castShadow neverIntersect unitLight triOverShape Identity triData)
                 @ fst (castShadow neverIntersect unitLight triCollider Identity triData),
                 [(snd (castShadow neverIntersect unitLight triOverShape Identity triData), Identity),
                  (snd (castShadow neverIntersect unitLight triCollider Identity triData), Identity)])"
    by (simp add: tri_shade triOverShape_shade split: prod.splits)
  then have "\<exists>cmds cts. render 2 neverIntersect unitLight [(triOverShape, Identity), (triCollider, Identity)] Identity
          = Inr (cmds, cts)"
    by (simp add: render_def)
  then obtain cmds cts where
    r: "render 2 neverIntersect unitLight [(triOverShape, Identity), (triCollider, Identity)] Identity
          = Inr (cmds, cts)"
    by blast
  from render_recolours_colliders[OF r] have
    "cts = [(triOverShape\<lparr>shapeFillColor := White\<rparr>, Identity),
            (triCollider\<lparr>shapeFillColor := Black\<rparr>, Identity)]"
    by (simp add: triOverShape_def triCollider_def)
  with r show ?thesis by simp
qed

text \<open>
  The claim as stated fails: a black light-over-shape collider is white after the call.
\<close>

theorem render_turns_collider_white:
  "shapeFillColor triOverShape = Black
   \<and> (case render 2 neverIntersect unitLight [(triOverShape, Identity)] Identity of
        Inl e \<Rightarrow> False
      | Inr (cmds, cts) \<Rightarrow> map (shapeFillColor \<circ> fst) cts = [White])
   \<and> White \<noteq> Black"
proof -
  obtain k lc' where kl: "castShadow neverIntersect unitLight triOverShape Identity triData = (k, lc')"
    by (cases "castShadow neverIntersect unitLight triOverShape Identity triData")
  then have s: "shadeCollider 2 neverIntersect unitLight Identity (triOverShape, Identity) = Inr (k, lc')"
    by (simp add: triOverShape_shade)
  from shadeCollider_recolor[OF s] have
    "snd (overShape (lc', Identity)) = (triOverShape\<lparr>shapeFillColor := White\<rparr>, Identity)"
    by (simp add: overShape_collider triOverShape_def)
  with s have "(case render 2 neverIntersect unitLight [(triOverShape, Identity)] Identity of
        Inl e \<Rightarrow> False
      | Inr (cmds, cts) \<Rightarrow> map (shapeFillColor \<circ> fst) cts = [White])"
    by (simp add: render_def)
  moreover have "shapeFillColor triOverShape = Black" by (simp add: triOverShape_def)
  moreover have "White \<noteq> Black" by (simp add: White_def Black_def)
  ultimately show ?thesis by blast
qed

text \<open>
  C7. The flicker callbacks should never take the scale of the light above its value at
  the start of flickering. On the code they do. \<open>LightFlickering(128, 1)\<close> constructed
  at clock 0 and first called at 200 ms, then every 16 ms with delta 16: the first call
  shrinks the scale to 0.875 and flips the direction, the next two grow it to 1.125.
  \<open>RandomizedFlickering(128, 1)\<close> with generator values 1 and then 0.5: the first call
  shrinks the scale to 0.875 and halves the period, the second grows it to 1.125.
\<close>

theorem flickering_exceeds_initial_scale:
  "getScale unitLight = (1, 1)
   \<and> getScale (snd (LightFlickering_call 16 232000 (LightFlickering_call 16 216000
        (LightFlickering_call 16 200000 (newLightFlickering 128 1 0, unitLight))))) = (9/8, 9/8)
   \<and> getScale (snd (RandomizedFlickering_call 16 216000 1
        (RandomizedFlickering_call 16 200000 (1/2) (newRandomizedFlickering 128 1 1 0, unitLight))))
      = (9/8, 9/8)"
  by (simp add: LightFlickering_call_def RandomizedFlickering_call_def newLightFlickering_def
      newRandomizedFlickering_def unitLight_def getScale_def setScale_def
      elapsedMilliseconds_def Let_def)

text \<open>
  C8. \<open>interpolateAmbientLight\<close> steps a channel by one unit when the carry exceeds 1
  in magnitude, so a call should change a channel by at most one unit. On the code the
  step is an unguarded \<open>--\<close> on a byte: from the ambient colour \<open>(1, 1, 1)\<close>, two calls
  with target black and strength \<open>1/4\<close> take the red channel to 0 and then to 255, a
  change of 255 units in one call, 255 units away from the target.
\<close>

theorem interpolateAmbientLight_wraps:
  "col_r (mAmbientColor (interpolateAmbientLight Black (1/4)
      (setAmbientColor \<lparr>col_r = 1, col_g = 1, col_b = 1, col_a = 255\<rparr> newLightSystem))) = 0
   \<and> col_r (mAmbientColor (interpolateAmbientLight Black (1/4) (interpolateAmbientLight Black (1/4)
      (setAmbientColor \<lparr>col_r = 1, col_g = 1, col_b = 1, col_a = 255\<rparr> newLightSystem)))) = 255"
  by (simp add: interpolateAmbientLight_def interpolateChannel_def setAmbientColor_def
      newLightSystem_def Black_def Let_def)

text \<open>
  C9, as amended. The geometry engine applies no range test; the test is made by
  \<open>LightSystem::renderLight\<close>: a collider whose transformed bounds do not meet the
  transformed bounds of the light is not handed to \<open>render\<close>, so no boundary is
  computed for it and the frame is the one rendered without it.
\<close>

theorem out_of_range_collider_not_rendered:
  "\<not> inRange light lightTransf ct \<Longrightarrow>
   renderLight fuel ri states light lightTransf (before @ ct # after)
     = renderLight fuel ri states light lightTransf (before @ after)"
  by (simp add: renderLight_def)

theorem out_of_range_collider_not_rendered_witness:
  "\<not> inRange unitLight Identity (triCollider, Identity)
   \<and> renderLight 2 neverIntersect defaultStates unitLight Identity ([] @ (triCollider, Identity) # [])
       = renderLight 2 neverIntersect defaultStates unitLight Identity ([] @ [])"
  using tri_out_of_range
    out_of_range_collider_not_rendered[OF tri_out_of_range, of 2 neverIntersect defaultStates "[]" "[]"]
  by simp

text \<open>
  The claim as stated fails: the triangle is convex, its bounds do not meet the bounds of
  the light, each of its points is at least 24 away from the cast centre, and
  \<open>getPenumbrasPoint\<close> returns two inner and two outer boundary indices for it.
\<close>

theorem distant_triangle_has_boundaries:
  "isConvex (shapePoints triCollider)
   \<and> \<not> inRange unitLight Identity (triCollider, Identity)
   \<and> list_all (\<lambda>p. 24 \<le> magnitude (vsub p (transformPoint Identity (getCastCenter unitLight))))
        (shapePoints triCollider)
   \<and> getPenumbrasPoint 2 unitLight triCollider Identity Identity noPenumbraData = Inr triData
   \<and> innerBoundaryIndices triData = [1, 0] \<and> outerBoundaryIndices triData = [1, 2]"
proof -
  have e: "getPenumbrasPoint 2 unitLight triCollider Identity Identity noPenumbraData = Inr triData"
    using tri_eval[of 0] by (simp add: numeral_2_eq_2)
  have far: "list_all (\<lambda>p. 24 \<le> magnitude (vsub p (transformPoint Identity (getCastCenter unitLight))))
        (shapePoints triCollider)"
    by (simp add: unitLight_center triCollider_def magnitude_def vsub_def)
  from tri_convex tri_out_of_range far e show ?thesis by (simp add: triData_def)
qed

text \<open>
  C10. For a collider without points, \<open>getPenumbrasPoint\<close> returns at once, whatever
  the fuel, and leaves the five vectors as they were passed in: the model's early return
  stands before every read of a point.
\<close>

theorem getPenumbrasPoint_no_points:
  "getPointCount collider = 0 \<Longrightarrow>
   getPenumbrasPoint fuel light collider colliderTransform lightTransform d = Inr d"
  by (simp add: getPenumbrasPoint_def)

theorem getPenumbrasPoint_no_points_witness:
  "getPointCount emptyCollider = 0
   \<and> getPenumbrasPoint 0 unitLight emptyCollider Identity Identity triData = Inr triData"
proof -
  have h: "getPointCount emptyCollider = 0" by (simp add: getPointCount_def emptyCollider_def)
  from h getPenumbrasPoint_no_points[OF h] show ?thesis by simp
qed

end
